theory Spec2Isabelle
  imports Complex_Main
begin

section \<open>Post-translation beam analysis: the model\<close>

text \<open>
  A shallow embedding of \<^verbatim>\<open>main\<close> of
  \<^verbatim>\<open>src/tools/post_translation_operation_template.py\<close>: the determination of a beam
  centre and a flux from a beamstopless detector image.

  Pixel intensities are real numbers: the model follows the array code over exact
  arithmetic and leaves IEEE rounding and the special values \<^verbatim>\<open>nan\<close> and
  \<^verbatim>\<open>inf\<close> of a stored frame out. The one place where the code produces a
  non-finite number from finite input, the division by the recording time, is kept
  (\<open>true_divide\<close> below). Reading the two datasets from the HDF5 file and writing the two
  translation elements back are done by \<^verbatim>\<open>h5py\<close> and the translator package:
  the model takes what was read as arguments and returns what is handed to the writer.
\<close>

subsection \<open>Exceptions and arrays\<close>

text \<open>The Python exceptions that the modelled lines can raise.\<close>

datatype error = KeyError | ValueError | TypeError | IndexError

text \<open>
  A NumPy array: its shape and its elements in row-major order. The rank (\<^verbatim>\<open>ndim\<close>)
  is the length of the shape; a rank-0 array has shape \<open>[]\<close> and one element.
\<close>

record 'a ndarray =
  shape :: "nat list"
  data :: "'a list"

definition ndim :: "'a ndarray \<Rightarrow> nat" where
  "ndim a = length (shape a)"

definition wf_array :: "'a ndarray \<Rightarrow> bool" where
  "wf_array a = (length (data a) = prod_list (shape a))"

text \<open>Element \<^verbatim>\<open>a[i, j]\<close> of a rank-2 array with \<open>C\<close> columns.\<close>

definition pixel :: "'a ndarray \<Rightarrow> nat \<Rightarrow> nat \<Rightarrow> 'a" where
  "pixel a i j = data a ! (i * (shape a ! 1) + j)"

subsection \<open>Step 1: averaging down to two dimensions (lines 72-73)\<close>

text \<open>
  \<^verbatim>\<open>np.mean(imageData, axis=0)\<close>: the leading axis of length \<open>n\<close> is averaged away.
  Element \<open>k\<close> of the result is the arithmetic mean of the elements \<open>i * m + k\<close>,
  \<open>i < n\<close>, where \<open>m\<close> is the number of elements of one slice. The loop calls it on
  arrays of rank above 2 only, so the rank-0 case (a NumPy axis error) is never reached.
  Over an empty leading axis NumPy yields \<^verbatim>\<open>nan\<close> with a warning; the statements
  below about mean values are for a non-empty axis.
\<close>

definition mean_axis0 :: "real ndarray \<Rightarrow> real ndarray" where
  "mean_axis0 a =
     (case shape a of
        [] \<Rightarrow> a
      | n # rest \<Rightarrow>
          \<lparr>shape = rest,
           data = map (\<lambda>k. (\<Sum>i\<leftarrow>[0..<n]. data a ! (i * prod_list rest + k)) / real n)
                      [0..<prod_list rest]\<rparr>)"

text \<open>\<^verbatim>\<open>while imageData.ndim > 2: imageData = np.mean(imageData, axis=0)\<close>\<close>

function frame_reducer :: "real ndarray \<Rightarrow> real ndarray" where
  "frame_reducer imageData =
     (if ndim imageData > 2 then frame_reducer (mean_axis0 imageData) else imageData)"
  by pat_completeness auto
termination
  by (relation "measure ndim") (auto simp: ndim_def mean_axis0_def split: list.splits)

declare frame_reducer.simps [simp del]

subsection \<open>Step 2: validity mask, threshold and peak label (lines 76-79)\<close>

text \<open>
  \<^verbatim>\<open>(np.logical_and(imageData >= 0, imageData <= 1e6)).astype(int)\<close>: an integer array
  of the same shape, 1 where the intensity lies in the closed interval from 0 to
  \<open>V_max\<close>, else 0. The bound is the literal \<^verbatim>\<open>1e6\<close> of the source.
\<close>

definition V_max :: real where
  "V_max = 1000000"

definition labeled_foreground :: "real ndarray \<Rightarrow> int ndarray" where
  "labeled_foreground imageData =
     \<lparr>shape = shape imageData,
      data = map (\<lambda>x. if 0 \<le> x \<and> x \<le> V_max then 1 else 0) (data imageData)\<rparr>"

text \<open>\<^verbatim>\<open>maskedTwoDImage = imageData * labeled_foreground\<close>, element by element.\<close>

definition maskedTwoDImage :: "real ndarray \<Rightarrow> real ndarray" where
  "maskedTwoDImage imageData =
     \<lparr>shape = shape imageData,
      data = map2 (\<lambda>x m. x * of_int m) (data imageData) (data (labeled_foreground imageData))\<rparr>"

text \<open>
  \<^verbatim>\<open>a.max()\<close>: the largest element; on an array without elements NumPy raises
  \<^verbatim>\<open>ValueError\<close> (a reduction without identity).
\<close>

definition ndarray_max :: "real ndarray \<Rightarrow> error + real" where
  "ndarray_max a = (if data a = [] then Inl ValueError else Inr (Max (set (data a))))"

text \<open>\<^verbatim>\<open>threshold_value = np.maximum(1, 0.0001 * maskedTwoDImage.max())\<close>\<close>

definition threshold_value :: "real ndarray \<Rightarrow> error + real" where
  "threshold_value masked =
     (case ndarray_max masked of
        Inl e \<Rightarrow> Inl e
      | Inr m \<Rightarrow> Inr (max 1 (0.0001 * m)))"

text \<open>\<^verbatim>\<open>labeled_peak = (maskedTwoDImage > threshold_value).astype(int)\<close>\<close>

definition labeled_peak :: "real ndarray \<Rightarrow> real \<Rightarrow> int ndarray" where
  "labeled_peak masked thr =
     \<lparr>shape = shape masked,
      data = map (\<lambda>x. if x > thr then 1 else 0) (data masked)\<rparr>"

subsection \<open>Step 3: region properties (lines 80-82)\<close>

text \<open>
  \<^verbatim>\<open>regionprops(label_image, intensity_image)\<close> of scikit-image, which is not part of
  the repository, after its documentation. It raises \<^verbatim>\<open>TypeError\<close> unless the label
  image has rank 2 or 3; rank 3 does not occur here, since the frame reducer leaves no
  rank above 2, and is not modelled. Otherwise there is one region for every label
  \<open>1, 2, ...\<close> up to the largest that occurs in the label image, in increasing order,
  made of all pixels with that label (connected or not). The \<^verbatim>\<open>centroid\<close> of a
  region is the mean of the coordinates of its pixels; its \<^verbatim>\<open>weighted_centroid\<close>
  is the mean of the coordinates weighted with the intensity image. A region whose
  weights sum to zero has a \<^verbatim>\<open>nan\<close> weighted centroid in NumPy; \<open>main\<close> never
  builds one (lemma \<open>foreground_weight_pos\<close>).
\<close>

record RegionProperties =
  label :: int
  coords :: "(nat \<times> nat) list"
  centroid :: "real \<times> real"
  weighted_centroid :: "real \<times> real"

definition region_coords :: "int ndarray \<Rightarrow> int \<Rightarrow> (nat \<times> nat) list" where
  "region_coords label_image l =
     [(i, j). i \<leftarrow> [0..<shape label_image ! 0], j \<leftarrow> [0..<shape label_image ! 1],
              pixel label_image i j = l]"

definition region_properties :: "int ndarray \<Rightarrow> real ndarray \<Rightarrow> int \<Rightarrow> RegionProperties" where
  "region_properties label_image intensity_image l =
     (let cs = region_coords label_image l;
          n = real (length cs);
          m00 = (\<Sum>(i, j)\<leftarrow>cs. pixel intensity_image i j)
      in \<lparr>label = l,
          coords = cs,
          centroid = ((\<Sum>(i, j)\<leftarrow>cs. real i) / n, (\<Sum>(i, j)\<leftarrow>cs. real j) / n),
          weighted_centroid =
            ((\<Sum>(i, j)\<leftarrow>cs. real i * pixel intensity_image i j) / m00,
             (\<Sum>(i, j)\<leftarrow>cs. real j * pixel intensity_image i j) / m00)\<rparr>)"

definition region_labels :: "int ndarray \<Rightarrow> int list" where
  "region_labels label_image =
     (if data label_image = [] then []
      else filter (\<lambda>l. l \<in> set (data label_image)) [1..Max (set (data label_image))])"

definition regionprops :: "int ndarray \<Rightarrow> real ndarray \<Rightarrow> error + RegionProperties list" where
  "regionprops label_image intensity_image =
     (if ndim label_image \<noteq> 2 then Inl TypeError
      else Inr (map (region_properties label_image intensity_image) (region_labels label_image)))"

subsection \<open>Step 4: intensity in the region of interest (lines 84-87)\<close>

text \<open>Python's \<^verbatim>\<open>int(x)\<close> on a float: truncation towards zero.\<close>

definition py_int :: "real \<Rightarrow> int" where
  "py_int x = (if 0 \<le> x then \<lfloor>x\<rfloor> else \<lceil>x\<rceil>)"

text \<open>
  A slice \<^verbatim>\<open>xs[start:stop]\<close>: a negative bound counts from the end, and every bound is
  then cut to the range from 0 to the length; the slice is empty when stop is not above
  start.
\<close>

definition slice_index :: "int \<Rightarrow> nat \<Rightarrow> nat" where
  "slice_index i n = (if i < 0 then nat (max (i + int n) 0) else min (nat i) n)"

definition py_slice :: "int \<Rightarrow> int \<Rightarrow> 'a list \<Rightarrow> 'a list" where
  "py_slice start stop xs =
     take (slice_index stop (length xs) - slice_index start (length xs))
          (drop (slice_index start (length xs)) xs)"

text \<open>The rows of a rank-2 array.\<close>

definition rows_of :: "'a ndarray \<Rightarrow> 'a list list" where
  "rows_of a =
     map (\<lambda>i. take (shape a ! 1) (drop (i * (shape a ! 1)) (data a))) [0..<shape a ! 0]"

text \<open>
  \<^verbatim>\<open>np.sum(maskedTwoDImage[max(int(c0 - ROI_SIZE), 0) : min(int(c0 + ROI_SIZE), shape[0]),
  max(int(c1 - ROI_SIZE), 0) : min(int(c1 + ROI_SIZE), shape[1])])\<close>
  for the weighted centre of mass \<open>(c0, c1)\<close>.
\<close>

definition ITotal_region :: "real ndarray \<Rightarrow> real \<times> real \<Rightarrow> int \<Rightarrow> real" where
  "ITotal_region masked weighted_center_of_mass roi =
     (let r0 = max (py_int (fst weighted_center_of_mass - of_int roi)) 0;
          r1 = min (py_int (fst weighted_center_of_mass + of_int roi)) (int (shape masked ! 0));
          c0 = max (py_int (snd weighted_center_of_mass - of_int roi)) 0;
          c1 = min (py_int (snd weighted_center_of_mass + of_int roi)) (int (shape masked ! 1))
      in (\<Sum>row\<leftarrow>py_slice r0 r1 (rows_of masked). sum_list (py_slice c0 c1 row)))"

subsection \<open>The key-value parameter (line 60)\<close>

text \<open>
  The key-value pairs come from the command line as strings. \<^verbatim>\<open>int(s)\<close> on a string:
  surrounding white space is dropped, a sign may lead, and what remains is decimal digits
  with single underscores between them; anything else raises \<^verbatim>\<open>ValueError\<close>.
  Only ASCII is covered.
\<close>

definition is_digit :: "char \<Rightarrow> bool" where
  "is_digit c = (48 \<le> (of_char c :: nat) \<and> (of_char c :: nat) \<le> 57)"

definition digit_value :: "char \<Rightarrow> nat" where
  "digit_value c = of_char c - 48"

definition is_space :: "char \<Rightarrow> bool" where
  "is_space c = ((of_char c :: nat) \<in> {9, 10, 11, 12, 13, 28, 29, 30, 31, 32})"

fun digits :: "nat \<Rightarrow> string \<Rightarrow> nat option" where
  "digits acc [] = Some acc"
| "digits acc [c] = (if is_digit c then Some (10 * acc + digit_value c) else None)"
| "digits acc (c # d # cs) =
     (if is_digit c then digits (10 * acc + digit_value c) (d # cs)
      else if c = CHR ''_'' \<and> is_digit d then digits acc (d # cs)
      else None)"

definition int_of_string :: "string \<Rightarrow> error + int" where
  "int_of_string s =
     (let t = rev (dropWhile is_space (rev (dropWhile is_space s)));
          neg = (t \<noteq> [] \<and> hd t = CHR ''-'');
          u = (if t \<noteq> [] \<and> (hd t = CHR ''-'' \<or> hd t = CHR ''+'') then tl t else t)
      in if u = [] then Inl ValueError
         else if \<not> is_digit (hd u) then Inl ValueError
         else (case digits 0 u of
                 None \<Rightarrow> Inl ValueError
               | Some n \<Rightarrow> Inr (if neg then - int n else int n)))"

text \<open>\<^verbatim>\<open>ROI_SIZE = 25 if keyvals is None else int(keyvals['roi_size'])\<close>\<close>

definition ROI_SIZE :: "(string \<rightharpoonup> string) option \<Rightarrow> error + int" where
  "ROI_SIZE keyvals =
     (case keyvals of
        None \<Rightarrow> Inr 25
      | Some kv \<Rightarrow>
          (case kv ''roi_size'' of
             None \<Rightarrow> Inl KeyError
           | Some v \<Rightarrow> int_of_string v))"

subsection \<open>The whole of \<open>main\<close> (lines 60-114)\<close>

text \<open>
  \<^verbatim>\<open>ITotal_region / recordingTime\<close> on NumPy scalars: a division by zero does not raise,
  it gives \<^verbatim>\<open>inf\<close> or \<^verbatim>\<open>nan\<close> with a warning.
\<close>

datatype np_float = Finite real | NonFinite

definition true_divide :: "real \<Rightarrow> real \<Rightarrow> np_float" where
  "true_divide x t = (if t = 0 then NonFinite else Finite (x / t))"

text \<open>
  The default values of the two translation elements that \<open>main\<close> hands to the writer:
  the (unweighted) centre of mass and the flux.
\<close>

record beamAnalysis =
  centerOfMass :: "real \<times> real"
  flux :: np_float

text \<open>
  \<open>main keyvals imageData recordingTime\<close>, where \<open>imageData\<close> and \<open>recordingTime\<close>
  are the datasets \<^verbatim>\<open>/entry/data/data_000001\<close> and
  \<^verbatim>\<open>/entry/instrument/detector/count_time\<close> read from the file. The steps are in the
  order of the source, so the first exception raised is the one returned.
\<close>

definition main :: "(string \<rightharpoonup> string) option \<Rightarrow> real ndarray \<Rightarrow> real \<Rightarrow> error + beamAnalysis" where
  "main keyvals imageData recordingTime =
     (case ROI_SIZE keyvals of
        Inl e \<Rightarrow> Inl e
      | Inr roi \<Rightarrow>
          (let twoD = frame_reducer imageData;
               masked = maskedTwoDImage twoD
           in (case threshold_value masked of
                 Inl e \<Rightarrow> Inl e
               | Inr thr \<Rightarrow>
                   (case regionprops (labeled_peak masked thr) twoD of
                      Inl e \<Rightarrow> Inl e
                    | Inr properties \<Rightarrow>
                        (case properties of
                           [] \<Rightarrow> Inl IndexError
                         | p # ps \<Rightarrow>
                             Inr \<lparr>centerOfMass = centroid p,
                                  flux = true_divide
                                           (ITotal_region masked (weighted_centroid p) roi)
                                           recordingTime\<rparr>)))))"

subsection \<open>Inputs used in the examples\<close>




definition zeros2 :: "real ndarray" where
  "zeros2 = \<lparr>shape = [2, 2], data = [0, 0, 0, 0]\<rparr>"

definition rank1 :: "real ndarray" where
  "rank1 = \<lparr>shape = [3], data = [0, 5, 0]\<rparr>"






section \<open>Properties\<close>

subsection \<open>The frame reducer\<close>

lemma frame_reducer_le2: "ndim a \<le> 2 \<Longrightarrow> frame_reducer a = a"
  by (simp add: frame_reducer.simps)

lemma frame_reducer_step: "2 < ndim a \<Longrightarrow> frame_reducer a = frame_reducer (mean_axis0 a)"
  by (subst frame_reducer.simps) simp

lemma ndim_mean_axis0: "shape a \<noteq> [] \<Longrightarrow> ndim (mean_axis0 a) = ndim a - 1"
  by (cases "shape a") (simp_all add: ndim_def mean_axis0_def)

lemma ndim_frame_reducer: "2 \<le> ndim a \<Longrightarrow> ndim (frame_reducer a) = 2"
proof (induction a rule: frame_reducer.induct)
  case (1 a)
  show ?case
  proof (cases "2 < ndim a")
    case True
    then have ne: "shape a \<noteq> []" by (auto simp: ndim_def)
    from True have "2 \<le> ndim (mean_axis0 a)" by (simp add: ndim_mean_axis0 [OF ne])
    with 1 True show ?thesis by (simp add: frame_reducer_step)
  next
    case False
    with 1 show ?thesis by (simp add: frame_reducer_le2)
  qed
qed









subsection \<open>The region-of-interest parameter\<close>



subsection \<open>The validity masker\<close>

lemma index_in_range: "i < R \<Longrightarrow> j < C \<Longrightarrow> i * C + j < R * (C::nat)"
proof -
  assume "i < R" "j < C"
  then have "i * C + j < Suc i * C" by simp
  also have "\<dots> \<le> R * C" using \<open>i < R\<close> by (intro mult_le_mono1) simp
  finally show ?thesis .
qed

lemma pixel_in_range:
  "wf_array a \<Longrightarrow> shape a = [R, C] \<Longrightarrow> i < R \<Longrightarrow> j < C \<Longrightarrow> i * C + j < length (data a)"
  using index_in_range [of i R j C] by (simp add: wf_array_def)





subsection \<open>The peak segmenter\<close>

lemma threshold_value_nonempty:
  "data masked \<noteq> [] \<Longrightarrow> threshold_value masked = Inr (max 1 (0.0001 * Max (set (data masked))))"
  by (simp add: threshold_value_def ndarray_max_def)


lemma threshold_value_data: "threshold_value masked = Inr thr \<Longrightarrow> data masked \<noteq> []"
  by (auto simp: threshold_value_def ndarray_max_def split: sum.splits if_splits)

lemma pixel_labeled_peak:
  assumes "wf_array masked" "shape masked = [R, C]" "i < R" "j < C"
  shows "pixel (labeled_peak masked thr) i j = (if thr < pixel masked i j then 1 else 0)"
  using pixel_in_range [OF assms] assms(2)
  by (simp add: pixel_def labeled_peak_def)



subsection \<open>Input of rank below 2\<close>

lemma data_maskedTwoDImage_empty: "data (maskedTwoDImage a) = [] \<longleftrightarrow> data a = []"
  by (simp add: maskedTwoDImage_def labeled_foreground_def)

lemma ndim_labeled_peak: "ndim (labeled_peak masked thr) = ndim masked"
  by (simp add: ndim_def labeled_peak_def)

lemma ndim_maskedTwoDImage: "ndim (maskedTwoDImage a) = ndim a"
  by (simp add: ndim_def maskedTwoDImage_def)

lemma main_low_rank:
  assumes "ndim a < 2" "ROI_SIZE kv = Inr roi"
  shows "main kv a t = Inl (if data a = [] then ValueError else TypeError)"
proof (cases "data a = []")
  case True
  then have "threshold_value (maskedTwoDImage a) = Inl ValueError"
    by (simp add: threshold_value_def ndarray_max_def data_maskedTwoDImage_empty)
  with assms True show ?thesis
    by (simp add: main_def frame_reducer_le2)
next
  case False
  then have "threshold_value (maskedTwoDImage a)
             = Inr (max 1 (0.0001 * Max (set (data (maskedTwoDImage a)))))"
    by (simp add: threshold_value_nonempty data_maskedTwoDImage_empty)
  with assms False show ?thesis
    by (simp add: main_def frame_reducer_le2 regionprops_def ndim_labeled_peak
        ndim_maskedTwoDImage)
qed

text \<open>
  Claim C4, amended. The loop of the frame reducer does not run on an input of rank 0 or
  1: the input is returned as it is and nothing is raised there. \<open>main\<close> fails later,
  with \<^verbatim>\<open>ValueError\<close> from \<^verbatim>\<open>max()\<close> when the array has no element and
  otherwise with the \<^verbatim>\<open>TypeError\<close> of \<^verbatim>\<open>regionprops\<close>
  (only 2-D and 3-D images supported).
\<close>

theorem low_rank_passes_reducer:
  assumes "ndim a < 2"
  shows "frame_reducer a = a \<and>
         (ROI_SIZE kv = Inr roi \<longrightarrow>
            main kv a t = Inl (if data a = [] then ValueError else TypeError))"
  using assms main_low_rank [of a kv roi t] by (simp add: frame_reducer_le2)

theorem low_rank_passes_reducer_witness:
  "ndim rank1 < 2 \<and> ROI_SIZE None = Inr 25 \<and> data rank1 \<noteq> [] \<and>
   frame_reducer rank1 = rank1 \<and> main None rank1 1 = Inl TypeError"
proof -
  have h: "ndim rank1 < 2" by (simp add: ndim_def rank1_def)
  have d: "data rank1 \<noteq> []" by (simp add: rank1_def)
  have r: "ROI_SIZE None = Inr 25" by (simp add: ROI_SIZE_def)
  from low_rank_passes_reducer [OF h, of None 25 1] h d r show ?thesis by simp
qed

text \<open>
  Claim C4 as stated fails on the rank-1 array \<open>[0, 5, 0]\<close>: the frame reducer returns
  it, and the failure of \<open>main\<close> is the \<^verbatim>\<open>TypeError\<close> of the region analysis.
\<close>

theorem low_rank_counterexample:
  "ndim rank1 = 1 \<and> frame_reducer rank1 = rank1 \<and> main None rank1 1 = Inl TypeError"
  by code_simp

subsection \<open>An empty foreground\<close>

lemma region_labels_no_peak:
  assumes "data lab \<noteq> []" "\<forall>l\<in>set (data lab). l = 0"
  shows "region_labels lab = []"
proof -
  from assms have "set (data lab) = {0}" by (cases "data lab") auto
  then show ?thesis by (simp add: region_labels_def)
qed

text \<open>
  Claim C3, amended. When the frame has rank at least 2, the threshold is computed and
  no pixel of the masked frame is above it, \<^verbatim>\<open>regionprops\<close> returns the empty list
  and \<^verbatim>\<open>properties[0]\<close> raises \<^verbatim>\<open>IndexError\<close>: the code has no condition of
  its own for a missing region.
\<close>

theorem empty_foreground_index_error:
  assumes "ROI_SIZE keyvals = Inr roi"
    and "2 \<le> ndim imageData"
    and "threshold_value (maskedTwoDImage (frame_reducer imageData)) = Inr thr"
    and "\<forall>l\<in>set (data (labeled_peak (maskedTwoDImage (frame_reducer imageData)) thr)). l = 0"
  shows "regionprops (labeled_peak (maskedTwoDImage (frame_reducer imageData)) thr)
           (frame_reducer imageData) = Inr [] \<and>
         main keyvals imageData recordingTime = Inl IndexError"
proof -
  let ?m = "maskedTwoDImage (frame_reducer imageData)"
  have "data ?m \<noteq> []" using assms(3) by (rule threshold_value_data)
  then have ne: "data (labeled_peak ?m thr) \<noteq> []" by (simp add: labeled_peak_def)
  have nd: "ndim (labeled_peak ?m thr) = 2"
    using assms(2) by (simp add: ndim_labeled_peak ndim_maskedTwoDImage ndim_frame_reducer)
  have rp: "regionprops (labeled_peak ?m thr) (frame_reducer imageData) = Inr []"
    using nd region_labels_no_peak [OF ne assms(4)] by (simp add: regionprops_def)
  with assms(1,3) show ?thesis by (simp add: main_def)
qed

theorem empty_foreground_index_error_witness:
  "ROI_SIZE None = Inr 25 \<and> 2 \<le> ndim zeros2 \<and>
   threshold_value (maskedTwoDImage (frame_reducer zeros2)) = Inr 1 \<and>
   set (data (labeled_peak (maskedTwoDImage (frame_reducer zeros2)) 1)) = {0} \<and>
   main None zeros2 1 = Inl IndexError"
proof -
  have a: "ROI_SIZE None = Inr 25" by (simp add: ROI_SIZE_def)
  have b: "2 \<le> ndim zeros2" by (simp add: ndim_def zeros2_def)
  have fr: "frame_reducer zeros2 = zeros2" by (simp add: frame_reducer_le2 ndim_def zeros2_def)
  have m: "maskedTwoDImage zeros2 = zeros2"
    by (simp add: maskedTwoDImage_def labeled_foreground_def zeros2_def V_max_def)
  have c: "threshold_value (maskedTwoDImage (frame_reducer zeros2)) = Inr 1"
    by (simp add: fr m) (simp add: threshold_value_def ndarray_max_def zeros2_def)
  have d: "set (data (labeled_peak (maskedTwoDImage (frame_reducer zeros2)) 1)) = {0}"
    by (simp add: fr m) (simp add: labeled_peak_def zeros2_def)
  then have d': "\<forall>l\<in>set (data (labeled_peak (maskedTwoDImage (frame_reducer zeros2)) 1)). l = 0"
    by simp
  from empty_foreground_index_error [OF a b c d', of 1] a b c d show ?thesis by simp
qed

text \<open>
  Claim C3 as stated fails on the all-zero 2 by 2 frame: the peak label is all zero and
  \<open>main\<close> ends in the indexing failure \<^verbatim>\<open>IndexError\<close>.
\<close>

theorem empty_foreground_counterexample:
  "data (labeled_peak (maskedTwoDImage zeros2) 1) = [0, 0, 0, 0] \<and>
   main None zeros2 1 = Inl IndexError"
  by code_simp

subsection \<open>The recording time\<close>




subsection \<open>The flux integrator\<close>

















subsection \<open>The region analysis\<close>


lemma sum_list_region_coords:
  "(\<Sum>(i, j)\<leftarrow>region_coords lab l. f i j)
   = (\<Sum>i<shape lab ! 0. \<Sum>j<shape lab ! 1. if pixel lab i j = l then f i j else (0::real))"
proof -
  have inner: "(\<Sum>(i, j)\<leftarrow>concat (map (\<lambda>j. if pixel lab i j = l then [(i, j)] else []) [0..<n]). f i j)
               = (\<Sum>j<n. if pixel lab i j = l then f i j else 0)" for i n
    by (induction n) (simp_all add: lessThan_Suc)
  have outer: "(\<Sum>(i, j)\<leftarrow>concat (map (\<lambda>i. concat (map (\<lambda>j. if pixel lab i j = l then [(i, j)] else []) [0..<n])) [0..<m]). f i j)
               = (\<Sum>i<m. \<Sum>j<n. if pixel lab i j = l then f i j else 0)" for m n
    by (induction m) (simp_all add: lessThan_Suc inner)
  show ?thesis by (simp only: region_coords_def outer)
qed

lemma length_region_coords:
  "real (length (region_coords lab l))
   = (\<Sum>i<shape lab ! 0. \<Sum>j<shape lab ! 1. if pixel lab i j = l then 1 else 0)"
proof -
  have "real (length (region_coords lab l)) = (\<Sum>(i, j)\<leftarrow>region_coords lab l. 1)"
    by (simp add: sum_list_triv case_prod_unfold)
  then show ?thesis by (simp only: sum_list_region_coords)
qed



text \<open>The peak label as a condition on the masked frame.\<close>

lemma peak_label_iff:
  assumes "wf_array img" "shape img = [R, C]" "i < R" "j < C"
  shows "pixel (labeled_peak (maskedTwoDImage img) thr) i j = 1
         \<longleftrightarrow> thr < pixel (maskedTwoDImage img) i j"
proof -
  have "wf_array (maskedTwoDImage img)" "shape (maskedTwoDImage img) = [R, C]"
    using assms(1,2) by (simp_all add: wf_array_def maskedTwoDImage_def labeled_foreground_def)
  from pixel_labeled_peak [OF this assms(3,4), of thr] show ?thesis by simp
qed

lemma peak_sum:
  assumes "wf_array img" "shape img = [R, C]"
  shows "(\<Sum>(i, j)\<leftarrow>region_coords (labeled_peak (maskedTwoDImage img) thr) 1. f i j)
         = (\<Sum>i<R. \<Sum>j<C. if thr < pixel (maskedTwoDImage img) i j then f i j else (0::real))"
proof -
  let ?lab = "labeled_peak (maskedTwoDImage img) thr"
  have sh: "shape ?lab ! 0 = R" "shape ?lab ! 1 = C"
    using assms(2) by (simp_all add: labeled_peak_def maskedTwoDImage_def)
  have "(\<Sum>(i, j)\<leftarrow>region_coords ?lab 1. f i j)
        = (\<Sum>i<R. \<Sum>j<C. if pixel ?lab i j = 1 then f i j else 0)"
    by (simp only: sum_list_region_coords sh)
  also have "\<dots> = (\<Sum>i<R. \<Sum>j<C. if thr < pixel (maskedTwoDImage img) i j then f i j else 0)"
  proof (intro sum.cong refl)
    fix i j assume "i \<in> {..<R}" "j \<in> {..<C}"
    then have "i < R" "j < C" by simp_all
    from peak_label_iff [OF assms this, of thr]
    show "(if pixel ?lab i j = 1 then f i j else 0)
          = (if thr < pixel (maskedTwoDImage img) i j then f i j else 0)"
      by simp
  qed
  finally show ?thesis .
qed

lemma peak_count:
  assumes "wf_array img" "shape img = [R, C]"
  shows "real (length (region_coords (labeled_peak (maskedTwoDImage img) thr) 1))
         = (\<Sum>i<R. \<Sum>j<C. if thr < pixel (maskedTwoDImage img) i j then 1 else 0)"
proof -
  have "real (length (region_coords (labeled_peak (maskedTwoDImage img) thr) 1))
        = (\<Sum>(i, j)\<leftarrow>region_coords (labeled_peak (maskedTwoDImage img) thr) 1. 1)"
    by (simp add: sum_list_triv case_prod_unfold)
  then show ?thesis by (simp only: peak_sum [OF assms])
qed


lemma peak_centroid:
  assumes "wf_array img" "shape img = [R, C]"
  shows "centroid (region_properties (labeled_peak (maskedTwoDImage img) thr) img 1)
         = ((\<Sum>i<R. \<Sum>j<C. if thr < pixel (maskedTwoDImage img) i j then real i else 0)
            / (\<Sum>i<R. \<Sum>j<C. if thr < pixel (maskedTwoDImage img) i j then 1 else 0),
            (\<Sum>i<R. \<Sum>j<C. if thr < pixel (maskedTwoDImage img) i j then real j else 0)
            / (\<Sum>i<R. \<Sum>j<C. if thr < pixel (maskedTwoDImage img) i j then 1 else 0))"
  by (simp only: region_properties_def Let_def peak_sum [OF assms] peak_count [OF assms]
      RegionProperties.simps)












subsection \<open>The region of interest stays inside the frame\<close>









end
